theory Spec2Isabelle
  imports Complex_Main "HOL-Library.Multiset"
begin

section \<open>JavaScript numbers\<close>

text \<open>
  A JavaScript number is modelled as a real number, one of the two infinities, or NaN.
  Arithmetic on finite values is exact: the rounding, overflow and underflow of IEEE
  doubles are not modelled, and the two zeros are identified. The special values follow
  IEEE 754: NaN is absorbing, every comparison with NaN is false, \<open>Infinity - Infinity\<close>,
  \<open>0 * Infinity\<close>, \<open>Infinity / Infinity\<close> and \<open>0 / 0\<close> are NaN.
\<close>

datatype jsnum = Fin real | PosInf | NegInf | NaN

fun isFinite :: "jsnum \<Rightarrow> bool" where
  "isFinite (Fin _) = True"
| "isFinite _ = False"

text \<open>The relational operators \<open><\<close> and \<open><=\<close>; \<open>a > b\<close> is \<open>b < a\<close>.\<close>

fun jlt :: "jsnum \<Rightarrow> jsnum \<Rightarrow> bool" where
  "jlt NaN _ = False"
| "jlt _ NaN = False"
| "jlt (Fin a) (Fin b) = (a < b)"
| "jlt (Fin _) PosInf = True"
| "jlt (Fin _) NegInf = False"
| "jlt PosInf _ = False"
| "jlt NegInf NegInf = False"
| "jlt NegInf _ = True"

fun jle :: "jsnum \<Rightarrow> jsnum \<Rightarrow> bool" where
  "jle NaN _ = False"
| "jle _ NaN = False"
| "jle (Fin a) (Fin b) = (a \<le> b)"
| "jle (Fin _) PosInf = True"
| "jle (Fin _) NegInf = False"
| "jle PosInf PosInf = True"
| "jle PosInf _ = False"
| "jle NegInf _ = True"

definition jgt :: "jsnum \<Rightarrow> jsnum \<Rightarrow> bool" where
  "jgt a b = jlt b a"

definition jge :: "jsnum \<Rightarrow> jsnum \<Rightarrow> bool" where
  "jge a b = jle b a"

text \<open>Strict inequality \<open>!==\<close> on numbers: NaN differs from everything, itself included.\<close>

definition strict_neq :: "jsnum \<Rightarrow> jsnum \<Rightarrow> bool" where
  "strict_neq a b = (a = NaN \<or> b = NaN \<or> a \<noteq> b)"

text \<open>The sign of a number that is not NaN, and the infinity of a given sign.\<close>

fun jsign :: "jsnum \<Rightarrow> int" where
  "jsign (Fin a) = (if a > 0 then 1 else if a < 0 then -1 else 0)"
| "jsign PosInf = 1"
| "jsign NegInf = -1"
| "jsign NaN = 0"

definition inf_of_sign :: "int \<Rightarrow> jsnum" where
  "inf_of_sign s = (if s > 0 then PosInf else if s < 0 then NegInf else NaN)"

fun jmul :: "jsnum \<Rightarrow> jsnum \<Rightarrow> jsnum" where
  "jmul NaN _ = NaN"
| "jmul _ NaN = NaN"
| "jmul (Fin a) (Fin b) = Fin (a * b)"
| "jmul x y = inf_of_sign (jsign x * jsign y)"

fun jsub :: "jsnum \<Rightarrow> jsnum \<Rightarrow> jsnum" where
  "jsub NaN _ = NaN"
| "jsub _ NaN = NaN"
| "jsub (Fin a) (Fin b) = Fin (a - b)"
| "jsub (Fin _) PosInf = NegInf"
| "jsub (Fin _) NegInf = PosInf"
| "jsub PosInf PosInf = NaN"
| "jsub PosInf _ = PosInf"
| "jsub NegInf NegInf = NaN"
| "jsub NegInf _ = NegInf"

text \<open>
  Division. A finite value over zero is the infinity of the numerator's sign (NaN for
  \<open>0 / 0\<close>); a finite value over an infinity is zero; an infinity over a finite value
  keeps or flips its sign with the sign of the denominator (zero counts as positive).
\<close>

fun jdiv :: "jsnum \<Rightarrow> jsnum \<Rightarrow> jsnum" where
  "jdiv NaN _ = NaN"
| "jdiv _ NaN = NaN"
| "jdiv (Fin a) (Fin b) = (if b = 0 then inf_of_sign (jsign (Fin a)) else Fin (a / b))"
| "jdiv (Fin _) _ = Fin 0"
| "jdiv x (Fin b) = inf_of_sign (jsign x * (if b < 0 then -1 else 1))"
| "jdiv _ _ = NaN"

section \<open>Constants.js\<close>

definition MAX_REASONABLE_ROI :: jsnum where
  "MAX_REASONABLE_ROI = Fin 3600"

definition MIN_VALID_DELTA_CPS :: jsnum where
  "MIN_VALID_DELTA_CPS = Fin (1 / 1000)"

definition CONSERVATIVE_BOOST :: jsnum where
  "CONSERVATIVE_BOOST = Fin (2 / 100)"

definition CLICK_UPGRADE_WEIGHT :: jsnum where
  "CLICK_UPGRADE_WEIGHT = Fin (1 / 100)"

definition SYNERGY_MULTIPLIER :: jsnum where
  "SYNERGY_MULTIPLIER = Fin (1 / 2)"

section \<open>The normalized game state and the candidates\<close>

text \<open>
  The records produced by \<open>GameStateAdapter.getGameState\<close>, with the fields the
  economic model reads. Numeric fields range over all JavaScript numbers.
\<close>

record building =
  b_id :: string
  b_name :: string
  b_owned :: jsnum
  b_cost :: jsnum
  b_baseCPS :: jsnum
  b_totalCPS :: jsnum

record upgrade =
  u_id :: string
  u_name :: string
  u_cost :: jsnum
  u_description :: string
  u_descriptionDetail :: string

record gamestate =
  cookies :: jsnum
  cookiesPerSecond :: jsnum
  buildings :: "building list"
  upgrades :: "upgrade list"

text \<open>
  A candidate as built by \<open>calculateBuildingROI\<close> and \<open>calculateUpgradeROI\<close>. The
  field \<open>c_type\<close> is the string the source stores (\<open>'building'\<close> or \<open>'upgrade'\<close>);
  \<open>currentOwned\<close> is present for buildings only. The display strings are left out.
\<close>

record candidate =
  c_id :: string
  c_type :: string
  c_name :: string
  c_cost :: jsnum
  deltaCPS :: jsnum
  roiTime :: jsnum
  currentOwned :: "jsnum option"

section \<open>EconomicModel: payback time and building ROI\<close>

definition calculateROITime :: "jsnum \<Rightarrow> jsnum \<Rightarrow> jsnum" where
  "calculateROITime cost delta =
     (if jlt delta MIN_VALID_DELTA_CPS then PosInf
      else let r = jdiv cost delta
           in if \<not> isFinite r \<or> jlt r (Fin 0) then PosInf else r)"

definition calculateBuildingROI :: "building \<Rightarrow> candidate option" where
  "calculateBuildingROI b =
     (let cost = b_cost b; baseCPS = b_baseCPS b; owned = b_owned b; totalCPS = b_totalCPS b
      in if jle cost (Fin 0) \<or> jlt baseCPS (Fin 0) then None
         else
           let multiplier =
                 (if jgt owned (Fin 0) \<and> jgt totalCPS (Fin 0)
                  then let baseTotal = jmul baseCPS owned
                       in if jgt baseTotal (Fin 0) then jdiv totalCPS baseTotal else Fin 1
                  else Fin 1);
               delta = jmul baseCPS multiplier
           in Some \<lparr> c_id = b_id b, c_type = ''building'', c_name = b_name b,
                     c_cost = cost, deltaCPS = delta,
                     roiTime = calculateROITime cost delta,
                     currentOwned = Some owned \<rparr>)"

section \<open>Strings and the description patterns\<close>

text \<open>
  Strings are lists of 8-bit characters, read as the code units U+0000 to U+00FF.
  \<open>toLowerCase\<close> maps the ASCII capitals and the Latin-1 capitals (U+00C0 to U+00DE
  without the multiplication sign U+00D7) to their lower-case letters.
\<close>

definition toLowerChar :: "char \<Rightarrow> char" where
  "toLowerChar c =
     (let n = (of_char c :: nat)
      in if (65 \<le> n \<and> n \<le> 90) \<or> (192 \<le> n \<and> n \<le> 222 \<and> n \<noteq> 215)
         then char_of (n + 32) else c)"

definition toLowerCase :: "string \<Rightarrow> string" where
  "toLowerCase s = map toLowerChar s"

text \<open>The character classes \<open>\d\<close> and \<open>\s\<close> (restricted to code units below 256).\<close>

definition isDigit :: "char \<Rightarrow> bool" where
  "isDigit c = (let n = (of_char c :: nat) in 48 \<le> n \<and> n \<le> 57)"

definition isSpace :: "char \<Rightarrow> bool" where
  "isSpace c = (let n = (of_char c :: nat) in (9 \<le> n \<and> n \<le> 13) \<or> n = 32 \<or> n = 160)"

text \<open>
  A pattern character under the flag \<open>i\<close>: the pattern letters are lower-case ASCII,
  and an input character matches when it is that letter or its ASCII capital.
\<close>

definition ci_eq :: "char \<Rightarrow> char \<Rightarrow> bool" where
  "ci_eq p c = (c = p \<or> (let n = (of_char c :: nat) in 65 \<le> n \<and> n \<le> 90 \<and> char_of (n + 32) = p))"

text \<open>
  Matching at a fixed position returns the rest of the input. \<open>lit\<close> matches a literal
  case-insensitively, \<open>spaces1\<close> is the greedy \<open>\s+\<close>. A greedy repetition of a class
  never has to give characters back in the patterns below, because the item that follows
  it cannot start with a character of the class.
\<close>

fun lit :: "string \<Rightarrow> string \<Rightarrow> string option" where
  "lit [] s = Some s"
| "lit (p # ps) [] = None"
| "lit (p # ps) (c # cs) = (if ci_eq p c then lit ps cs else None)"

definition spaces1 :: "string \<Rightarrow> string option" where
  "spaces1 s = (case s of [] \<Rightarrow> None
                | c # cs \<Rightarrow> if isSpace c then Some (dropWhile isSpace cs) else None)"

text \<open>
  \<open>String.prototype.match\<close> with a regular expression without the flag \<open>g\<close>: the
  match at the leftmost position where the matcher succeeds.
\<close>

fun regex_search :: "(string \<Rightarrow> 'a option) \<Rightarrow> string \<Rightarrow> 'a option" where
  "regex_search m [] = m []"
| "regex_search m (c # cs) =
     (case m (c # cs) of Some r \<Rightarrow> Some r | None \<Rightarrow> regex_search m cs)"

text \<open>\<open>MULTIPLIER: /(\d+)x\s+as\s+efficient/i\<close>, returning capture group 1.\<close>

definition multiplier_at :: "string \<Rightarrow> string option" where
  "multiplier_at s =
     (let ds = takeWhile isDigit s
      in if ds = [] then None
         else Option.bind (lit ''x'' (dropWhile isDigit s)) (\<lambda>r1.
              Option.bind (spaces1 r1) (\<lambda>r2.
              Option.bind (lit ''as'' r2) (\<lambda>r3.
              Option.bind (spaces1 r3) (\<lambda>r4.
              Option.bind (lit ''efficient'' r4) (\<lambda>_. Some ds))))))"

definition match_MULTIPLIER :: "string \<Rightarrow> string option" where
  "match_MULTIPLIER desc = regex_search multiplier_at desc"

text \<open>\<open>PERCENTAGE_BOOST: /(\d+)%/\<close>, returning capture group 1.\<close>

definition percentage_at :: "string \<Rightarrow> string option" where
  "percentage_at s =
     (let ds = takeWhile isDigit s
      in if ds = [] then None
         else (case dropWhile isDigit s of
                 c # _ \<Rightarrow> if c = CHR ''%'' then Some ds else None
               | [] \<Rightarrow> None))"

definition match_PERCENTAGE_BOOST :: "string \<Rightarrow> string option" where
  "match_PERCENTAGE_BOOST desc = regex_search percentage_at desc"

text \<open>
  \<open>FLAT_COOKIE_BONUS: /\+(\d+\.?\d*)\s+cookies?\s+per/i\<close>, returning capture group 1.
  The optional \<open>s\<close> is tried first and given back when the rest fails.
\<close>

definition flat_tail :: "string \<Rightarrow> string option" where
  "flat_tail r = Option.bind (spaces1 r) (lit ''per'')"

definition flat_at :: "string \<Rightarrow> string option" where
  "flat_at s =
     (case s of [] \<Rightarrow> None
      | c # r \<Rightarrow>
          if c \<noteq> CHR ''+'' then None
          else
            let ds = takeWhile isDigit r; r1 = dropWhile isDigit r
            in if ds = [] then None
               else
                 let dot = (case r1 of [] \<Rightarrow> [] | d # _ \<Rightarrow> if d = CHR ''.'' then [d] else []);
                     r2 = drop (length dot) r1;
                     fs = takeWhile isDigit r2;
                     r3 = dropWhile isDigit r2
                 in Option.bind (spaces1 r3) (\<lambda>r4.
                    Option.bind (lit ''cookie'' r4) (\<lambda>r5.
                    Option.bind
                      (case Option.bind (lit ''s'' r5) flat_tail of
                         Some e \<Rightarrow> Some e | None \<Rightarrow> flat_tail r5)
                      (\<lambda>_. Some (ds @ dot @ fs)))))"

definition match_FLAT_COOKIE_BONUS :: "string \<Rightarrow> string option" where
  "match_FLAT_COOKIE_BONUS desc = regex_search flat_at desc"

text \<open>
  \<open>BUILDING_REFERENCE\<close>: an alternation of the building names under the flag \<open>i\<close>.
  At a position the alternatives are tried in the order written; the capture is the
  matched text.
\<close>

definition BUILDING_NAMES :: "string list" where
  "BUILDING_NAMES =
     [''cursor'', ''grandma'', ''farm'', ''mine'', ''factory'', ''bank'', ''temple'',
      ''wizard tower'', ''shipment'', ''alchemy lab'', ''portal'', ''time machine'',
      ''antimatter condenser'', ''prism'', ''chancemaker'', ''fractal engine'',
      ''javascript console'', ''idleverse'']"

fun first_alt :: "string list \<Rightarrow> string \<Rightarrow> string option" where
  "first_alt [] s = None"
| "first_alt (n # ns) s =
     (case lit n s of Some _ \<Rightarrow> Some (take (length n) s) | None \<Rightarrow> first_alt ns s)"

definition match_BUILDING_REFERENCE :: "string \<Rightarrow> string option" where
  "match_BUILDING_REFERENCE desc = regex_search (first_alt BUILDING_NAMES) desc"

text \<open>\<open>String.prototype.includes\<close>: a case-sensitive substring test.\<close>

fun str_includes :: "string \<Rightarrow> string \<Rightarrow> bool" where
  "str_includes [] p = (p = [])"
| "str_includes (c # cs) p = (take (length p) (c # cs) = p \<or> str_includes cs p)"

text \<open>
  \<open>parseFloat\<close> on an unsigned decimal without exponent, which is all a capture group
  of the patterns above can hold: digits, then optionally a dot and digits. The value is
  exact.
\<close>

definition digit_value :: "string \<Rightarrow> nat" where
  "digit_value ds = foldl (\<lambda>a c. 10 * a + (of_char c - 48)) 0 ds"

definition parseFloat :: "string \<Rightarrow> jsnum" where
  "parseFloat s =
     (let ip = takeWhile isDigit s;
          fp = (case dropWhile isDigit s of
                  [] \<Rightarrow> []
                | d # t \<Rightarrow> if d = CHR ''.'' then takeWhile isDigit t else [])
      in if ip = [] \<and> fp = [] then NaN
         else Fin (real (digit_value ip) + real (digit_value fp) / 10 ^ length fp))"

section \<open>EconomicModel: upgrade ROI\<close>

text \<open>
  \<open>_findAffectedBuilding\<close>: the first building of the state whose lower-cased name is
  the lower-cased text matched by \<open>BUILDING_REFERENCE\<close>.
\<close>

definition findAffectedBuilding :: "gamestate \<Rightarrow> string \<Rightarrow> building option" where
  "findAffectedBuilding gs description =
     (case match_BUILDING_REFERENCE description of
        None \<Rightarrow> None
      | Some buildingName \<Rightarrow>
          List.find (\<lambda>b. toLowerCase (b_name b) = toLowerCase buildingName) (buildings gs))"

text \<open>
  \<open>_estimateUpgradeCPS\<close>, with the early returns of the source as the branches of the
  cascade. The inner function is what follows pattern 1 when it does not return.
\<close>

definition estimate_after_multiplier :: "gamestate \<Rightarrow> string \<Rightarrow> jsnum" where
  "estimate_after_multiplier gs desc =
     (let currentCPS = cookiesPerSecond gs
      in case match_PERCENTAGE_BOOST desc of
           Some pm \<Rightarrow>
             (let percent = parseFloat pm
              in case findAffectedBuilding gs desc of
                   Some b \<Rightarrow> jmul (b_totalCPS b) (jdiv percent (Fin 100))
                 | None \<Rightarrow> jmul currentCPS (jdiv percent (Fin 100)))
         | None \<Rightarrow>
             (case match_FLAT_COOKIE_BONUS desc of
                Some fm \<Rightarrow> jmul (parseFloat fm) (Fin (3 / 2))
              | None \<Rightarrow>
                  (case findAffectedBuilding gs desc of
                     Some b \<Rightarrow> jmul (b_totalCPS b) SYNERGY_MULTIPLIER
                   | None \<Rightarrow>
                       if str_includes desc ''click'' \<or> str_includes desc ''cursor''
                       then jmul currentCPS CLICK_UPGRADE_WEIGHT
                       else jmul currentCPS CONSERVATIVE_BOOST)))"

definition estimateUpgradeCPS :: "gamestate \<Rightarrow> string \<Rightarrow> jsnum" where
  "estimateUpgradeCPS gs description =
     (let desc = toLowerCase description
      in case match_MULTIPLIER desc of
           Some mm \<Rightarrow>
             (let multiplier = parseFloat mm
              in case findAffectedBuilding gs desc of
                   Some b \<Rightarrow> jmul (b_totalCPS b) (jsub multiplier (Fin 1))
                 | None \<Rightarrow> estimate_after_multiplier gs desc)
         | None \<Rightarrow> estimate_after_multiplier gs desc)"

text \<open>
  \<open>calculateUpgradeROI\<close>. The description is
  \<open>upgrade.descriptionDetail || upgrade.description || ''\<close>: the first non-empty one.
\<close>

definition calculateUpgradeROI :: "gamestate \<Rightarrow> upgrade \<Rightarrow> candidate option" where
  "calculateUpgradeROI gs u =
     (let cost = u_cost u;
          description = (if u_descriptionDetail u \<noteq> [] then u_descriptionDetail u
                         else u_description u)
      in if jle cost (Fin 0) then None
         else
           let delta = estimateUpgradeCPS gs description
           in Some \<lparr> c_id = u_id u, c_type = ''upgrade'', c_name = u_name u,
                     c_cost = cost, deltaCPS = delta,
                     roiTime = calculateROITime cost delta,
                     currentOwned = None \<rparr>)"

text \<open>\<open>getAllCandidates\<close>: the buildings first, then the upgrades, each in state order.\<close>

definition getAllCandidates :: "gamestate \<Rightarrow> candidate list" where
  "getAllCandidates gs =
     List.map_filter calculateBuildingROI (buildings gs)
     @ List.map_filter (calculateUpgradeROI gs) (upgrades gs)"

section \<open>JavaScript values\<close>

text \<open>
  The values a validator can be handed: the primitives, plain objects, arrays and
  functions. An object is the list of its own properties, and a function value carries
  its own properties the same way. Accessor properties and proxies are not modelled, so
  reading a property of an object never runs code; arrays have no holes and no extra
  properties. Of the properties inherited from the built-in prototypes only \<open>name\<close> and
  \<open>length\<close> of functions are modelled: no other inherited property has a name that
  the validators read or test.
\<close>

datatype jsval =
    Undefined
  | Null
  | Bool bool
  | Num jsnum
  | BigInt int
  | Str string
  | Symbol string
  | Obj "(string \<times> jsval) list"
  | Arr "jsval list"
  | Fn "(string \<times> jsval) list"

datatype js_error = TypeError | Error string

definition bind_err :: "js_error + 'a \<Rightarrow> ('a \<Rightarrow> js_error + 'b) \<Rightarrow> js_error + 'b" where
  "bind_err m f = (case m of Inl e \<Rightarrow> Inl e | Inr v \<Rightarrow> f v)"

fun typeof :: "jsval \<Rightarrow> string" where
  "typeof Undefined = ''undefined''"
| "typeof Null = ''object''"
| "typeof (Bool _) = ''boolean''"
| "typeof (Num _) = ''number''"
| "typeof (BigInt _) = ''bigint''"
| "typeof (Str _) = ''string''"
| "typeof (Symbol _) = ''symbol''"
| "typeof (Obj _) = ''object''"
| "typeof (Arr _) = ''object''"
| "typeof (Fn _) = ''function''"

text \<open>\<open>ToBoolean\<close>: what \<open>!x\<close> and \<open>x || y\<close> test.\<close>

fun truthy :: "jsval \<Rightarrow> bool" where
  "truthy Undefined = False"
| "truthy Null = False"
| "truthy (Bool b) = b"
| "truthy (Num n) = (n \<noteq> NaN \<and> n \<noteq> Fin 0)"
| "truthy (BigInt n) = (n \<noteq> 0)"
| "truthy (Str s) = (s \<noteq> [])"
| "truthy _ = True"

fun isArray :: "jsval \<Rightarrow> bool" where
  "isArray (Arr _) = True"
| "isArray _ = False"

text \<open>A property name that is an array index below \<open>n\<close>: a decimal numeral without a leading zero.\<close>

definition is_index :: "string \<Rightarrow> nat \<Rightarrow> bool" where
  "is_index p n =
     (p \<noteq> [] \<and> list_all isDigit p \<and> (p = ''0'' \<or> hd p \<noteq> CHR ''0'') \<and> digit_value p < n)"

text \<open>
  Reading a property \<open>v.p\<close>: a TypeError on \<open>undefined\<close> and \<open>null\<close>. On a string and
  an array, \<open>length\<close> and the indices are defined; a function without an own \<open>name\<close> or
  \<open>length\<close> inherits the empty string and 0.
\<close>

fun get_prop :: "jsval \<Rightarrow> string \<Rightarrow> js_error + jsval" where
  "get_prop Undefined p = Inl TypeError"
| "get_prop Null p = Inl TypeError"
| "get_prop (Bool _) p = Inr Undefined"
| "get_prop (Num _) p = Inr Undefined"
| "get_prop (BigInt _) p = Inr Undefined"
| "get_prop (Symbol _) p = Inr Undefined"
| "get_prop (Str s) p =
     Inr (if p = ''length'' then Num (Fin (real (length s)))
          else if is_index p (length s) then Str [s ! digit_value p]
          else Undefined)"
| "get_prop (Obj ps) p = Inr (case map_of ps p of Some v \<Rightarrow> v | None \<Rightarrow> Undefined)"
| "get_prop (Arr xs) p =
     Inr (if p = ''length'' then Num (Fin (real (length xs)))
          else if is_index p (length xs) then xs ! digit_value p
          else Undefined)"
| "get_prop (Fn ps) p =
     Inr (case map_of ps p of
            Some v \<Rightarrow> v
          | None \<Rightarrow> if p = ''name'' then Str [] else if p = ''length'' then Num (Fin 0)
                    else Undefined)"

text \<open>The operator \<open>p in v\<close>: a TypeError unless the right operand is an object.\<close>

fun has_prop :: "string \<Rightarrow> jsval \<Rightarrow> js_error + bool" where
  "has_prop p (Obj ps) = Inr (p \<in> set (map fst ps))"
| "has_prop p (Arr xs) = Inr (p = ''length'' \<or> is_index p (length xs))"
| "has_prop p (Fn ps) = Inr (p \<in> set (map fst ps) \<or> p = ''name'' \<or> p = ''length'')"
| "has_prop p _ = Inl TypeError"

text \<open>The number held by a value whose \<open>typeof\<close> is \<open>'number'\<close>.\<close>

fun the_num :: "jsval \<Rightarrow> jsnum" where
  "the_num (Num n) = n"
| "the_num _ = NaN"

section \<open>Validators.js\<close>

definition isValidGameObject :: "jsval \<Rightarrow> js_error + bool" where
  "isValidGameObject game =
     (if \<not> truthy game then Inr False
      else bind_err (get_prop game ''cookies'') (\<lambda>c.
        if typeof c \<noteq> ''number'' then Inr False
        else bind_err (get_prop game ''cookiesPs'') (\<lambda>cps.
          if typeof cps \<noteq> ''number'' then Inr False
          else bind_err (get_prop game ''Objects'') (\<lambda>objs.
            if \<not> truthy objs \<or> typeof objs \<noteq> ''object'' then Inr False
            else bind_err (get_prop game ''UpgradesInStore'') (\<lambda>ups.
              if \<not> truthy ups \<or> \<not> isArray ups then Inr False
              else Inr True)))))"

text \<open>The test \<open>typeof x.name !== 'string' || x.name.length === 0\<close> on the value read.\<close>

definition bad_name :: "jsval \<Rightarrow> bool" where
  "bad_name nm = (typeof nm \<noteq> ''string'' \<or> get_prop nm ''length'' = Inr (Num (Fin 0)))"

definition isValidBuilding :: "jsval \<Rightarrow> js_error + bool" where
  "isValidBuilding building =
     (if \<not> truthy building then Inr False
      else bind_err (get_prop building ''name'') (\<lambda>nm.
        if bad_name nm then Inr False
        else bind_err (get_prop building ''amount'') (\<lambda>amount.
          if typeof amount \<noteq> ''number'' then Inr False
          else bind_err (get_prop building ''price'') (\<lambda>price.
            if typeof price \<noteq> ''number'' \<or> jlt (the_num price) (Fin 0) then Inr False
            else bind_err (get_prop building ''cps'') (\<lambda>cps.
              if typeof cps \<noteq> ''number'' \<or> jlt (the_num cps) (Fin 0) then Inr False
              else Inr True)))))"

definition isValidUpgrade :: "jsval \<Rightarrow> js_error + bool" where
  "isValidUpgrade upgrade =
     (if \<not> truthy upgrade then Inr False
      else bind_err (get_prop upgrade ''name'') (\<lambda>nm.
        if bad_name nm then Inr False
        else bind_err (get_prop upgrade ''getPrice'') (\<lambda>gp.
          if typeof gp \<noteq> ''function''
          then bind_err (get_prop upgrade ''basePrice'') (\<lambda>bp.
                 if typeof bp \<noteq> ''number'' then Inr False else Inr True)
          else Inr True)))"

text \<open>
  The four validators of plain numbers read no property and call nothing that can
  throw, so they are modelled as boolean functions.
\<close>

definition isValidROI :: "jsval \<Rightarrow> bool" where
  "isValidROI r =
     (if typeof r \<noteq> ''number'' then False
      else if \<not> isFinite (the_num r) then False
      else if jle (the_num r) (Fin 0) then False
      else True)"

definition isValidDeltaCPS :: "jsval \<Rightarrow> bool" where
  "isValidDeltaCPS d =
     (if typeof d \<noteq> ''number'' then False
      else if \<not> isFinite (the_num d) then False
      else if jle (the_num d) (Fin 0) then False
      else True)"

definition isAffordable :: "jsval \<Rightarrow> jsval \<Rightarrow> bool" where
  "isAffordable cost cks =
     (if typeof cost \<noteq> ''number'' \<or> typeof cks \<noteq> ''number'' then False
      else jle (the_num cost) (the_num cks))"

definition isReasonablyAffordable :: "jsval \<Rightarrow> jsval \<Rightarrow> bool" where
  "isReasonablyAffordable cost cks =
     (if typeof cost \<noteq> ''number'' \<or> typeof cks \<noteq> ''number'' then False
      else jle (the_num cost) (jmul (the_num cks) (Fin 10)))"

definition isValidGameState :: "jsval \<Rightarrow> js_error + bool" where
  "isValidGameState gameState =
     (if \<not> truthy gameState then Inr False
      else bind_err (get_prop gameState ''cookies'') (\<lambda>c.
        if typeof c \<noteq> ''number'' then Inr False
        else bind_err (get_prop gameState ''cookiesPerSecond'') (\<lambda>cps.
          if typeof cps \<noteq> ''number'' then Inr False
          else bind_err (get_prop gameState ''buildings'') (\<lambda>bs.
            if \<not> isArray bs then Inr False
            else bind_err (get_prop gameState ''upgrades'') (\<lambda>us.
              if \<not> isArray us then Inr False
              else Inr True)))))"

text \<open>The loop over \<open>requiredProps\<close>: false at the first property that is missing.\<close>

fun has_all_props :: "string list \<Rightarrow> jsval \<Rightarrow> js_error + bool" where
  "has_all_props [] v = Inr True"
| "has_all_props (p # ps) v =
     bind_err (has_prop p v) (\<lambda>present. if \<not> present then Inr False else has_all_props ps v)"

definition requiredProps :: "string list" where
  "requiredProps = [''id'', ''type'', ''name'', ''cost'', ''deltaCPS'', ''roiTime'']"

definition isValidCandidate :: "jsval \<Rightarrow> js_error + bool" where
  "isValidCandidate cand =
     (if \<not> truthy cand then Inr False
      else bind_err (has_all_props requiredProps cand) (\<lambda>complete.
        if \<not> complete then Inr False
        else bind_err (get_prop cand ''type'') (\<lambda>ty.
          if ty \<noteq> Str ''building'' \<and> ty \<noteq> Str ''upgrade'' then Inr False
          else bind_err (get_prop cand ''cost'') (\<lambda>cost.
            if typeof cost \<noteq> ''number'' \<or> jle (the_num cost) (Fin 0) then Inr False
            else Inr True))))"

section \<open>StrategyEngine.js and relaxed-advisor.js\<close>

text \<open>The JavaScript object of a candidate record.\<close>

definition candidate_obj :: "candidate \<Rightarrow> jsval" where
  "candidate_obj c =
     Obj ([(''id'', Str (c_id c)), (''type'', Str (c_type c)), (''name'', Str (c_name c)),
           (''cost'', Num (c_cost c)), (''deltaCPS'', Num (deltaCPS c)),
           (''roiTime'', Num (roiTime c))]
          @ (case currentOwned c of None \<Rightarrow> [] | Some n \<Rightarrow> [(''currentOwned'', Num n)]))"

text \<open>\<open>Array.prototype.filter\<close> with a callback that may throw.\<close>

fun filter_err :: "('a \<Rightarrow> js_error + bool) \<Rightarrow> 'a list \<Rightarrow> js_error + 'a list" where
  "filter_err p [] = Inr []"
| "filter_err p (x # xs) =
     bind_err (p x) (\<lambda>keep.
       bind_err (filter_err p xs) (\<lambda>rest. Inr (if keep then x # rest else rest)))"

text \<open>
  \<open>Array.prototype.sort\<close> with a comparison function: a stable sort in which a
  comparison result that is NaN counts as zero. It is written as an insertion sort: the
  element goes in front of the first element it does not compare greater than. For a
  consistent comparison function every stable sort returns this list. When the
  comparison function is not consistent on the elements (as \<open>greedy_compare\<close> is not when
  candidates with the same payback time have a NaN rate delta), the order an engine
  returns is implementation-defined and need not be this one; only the elements of the
  result are then fixed.
\<close>

fun sort_insert :: "('a \<Rightarrow> 'a \<Rightarrow> jsnum) \<Rightarrow> 'a \<Rightarrow> 'a list \<Rightarrow> 'a list" where
  "sort_insert cmp x [] = [x]"
| "sort_insert cmp x (y # ys) =
     (if jgt (cmp x y) (Fin 0) then y # sort_insert cmp x ys else x # y # ys)"

fun array_sort :: "('a \<Rightarrow> 'a \<Rightarrow> jsnum) \<Rightarrow> 'a list \<Rightarrow> 'a list" where
  "array_sort cmp [] = []"
| "array_sort cmp (x # xs) = sort_insert cmp x (array_sort cmp xs)"

definition greedy_compare :: "candidate \<Rightarrow> candidate \<Rightarrow> jsnum" where
  "greedy_compare a b =
     (if strict_neq (roiTime a) (roiTime b) then jsub (roiTime a) (roiTime b)
      else jsub (deltaCPS b) (deltaCPS a))"

text \<open>
  \<open>GreedyStrategy.evaluate\<close>. The callbacks of the first two filters read \<open>roiTime\<close>
  of a candidate record and cannot throw; the third calls \<open>isValidCandidate\<close> on the
  candidate object.
\<close>

definition GreedyStrategy_evaluate :: "candidate list \<Rightarrow> js_error + candidate list" where
  "GreedyStrategy_evaluate candidates =
     (let f1 = filter (\<lambda>c. isValidROI (Num (roiTime c))) candidates;
          f2 = filter (\<lambda>c. jle (roiTime c) MAX_REASONABLE_ROI) f1
      in bind_err (filter_err (\<lambda>c. isValidCandidate (candidate_obj c)) f2) (\<lambda>f3.
           Inr (array_sort greedy_compare f3)))"

definition relaxed_compare :: "candidate \<Rightarrow> candidate \<Rightarrow> jsnum" where
  "relaxed_compare a b = jsub (roiTime a) (roiTime b)"

definition RelaxedStrategy_evaluate :: "candidate list \<Rightarrow> js_error + candidate list" where
  "RelaxedStrategy_evaluate candidates =
     (let f1 = filter (\<lambda>c. isValidROI (Num (roiTime c))) candidates
      in bind_err (filter_err (\<lambda>c. isValidCandidate (candidate_obj c)) f1) (\<lambda>f2.
           Inr (array_sort relaxed_compare f2)))"

text \<open>
  A strategy object: whether it is an instance of \<open>GreedyStrategy\<close>, and its
  \<open>evaluate\<close> method, which returns an array, returns something that is not an array,
  or throws. \<open>evaluate\<close> is a function of the candidate array only; it does not change
  the array it is given.
\<close>

datatype eval_result = ArrayResult "candidate list" | NonArrayResult

record strategy =
  instanceofGreedy :: bool
  evaluate :: "candidate list \<Rightarrow> js_error + eval_result"

definition as_result :: "js_error + candidate list \<Rightarrow> js_error + eval_result" where
  "as_result r = bind_err r (\<lambda>xs. Inr (ArrayResult xs))"

definition GreedyStrategy :: strategy where
  "GreedyStrategy =
     \<lparr> instanceofGreedy = True, evaluate = (\<lambda>cs. as_result (GreedyStrategy_evaluate cs)) \<rparr>"

definition RelaxedStrategy :: strategy where
  "RelaxedStrategy =
     \<lparr> instanceofGreedy = False, evaluate = (\<lambda>cs. as_result (RelaxedStrategy_evaluate cs)) \<rparr>"

text \<open>The base class \<open>Strategy\<close>, whose \<open>evaluate\<close> always throws.\<close>

definition BaseStrategy :: strategy where
  "BaseStrategy =
     \<lparr> instanceofGreedy = False,
       evaluate = (\<lambda>cs. Inl (Error ''Strategy.evaluate() must be implemented by subclass'')) \<rparr>"

record engine =
  eng_strategy :: strategy

text \<open>
  \<open>StrategyEngine.recommend\<close> on an array of candidates: the returned value or the
  thrown error, and the engine afterwards (the fallback stores a new \<open>GreedyStrategy\<close>).
\<close>

definition recommend :: "engine \<Rightarrow> candidate list \<Rightarrow> (js_error + candidate list) \<times> engine" where
  "recommend eng candidates =
     (let attempt =
            bind_err (evaluate (eng_strategy eng) candidates) (\<lambda>r.
              case r of
                ArrayResult xs \<Rightarrow> Inr xs
              | NonArrayResult \<Rightarrow> Inl (Error ''Strategy.evaluate() must return an array''))
      in case attempt of
           Inr xs \<Rightarrow> (Inr xs, eng)
         | Inl err \<Rightarrow>
             if \<not> instanceofGreedy (eng_strategy eng)
             then (GreedyStrategy_evaluate candidates, eng\<lparr> eng_strategy := GreedyStrategy \<rparr>)
             else (Inl err, eng))"

section \<open>The Relaxed policy as the specification words it\<close>

text \<open>
  The specification describes the Relaxed policy as Greedy with step 2, the time-ceiling
  filter, left out. This is that description: the steps 1, 3 and 4 of
  \<open>GreedyStrategy.evaluate\<close>. It is compared below with \<open>RelaxedStrategy.evaluate\<close>.
\<close>

definition greedy_without_ceiling :: "candidate list \<Rightarrow> js_error + candidate list" where
  "greedy_without_ceiling candidates =
     (let f1 = filter (\<lambda>c. isValidROI (Num (roiTime c))) candidates
      in bind_err (filter_err (\<lambda>c. isValidCandidate (candidate_obj c)) f1) (\<lambda>f3.
           Inr (array_sort greedy_compare f3)))"

section \<open>Example inputs\<close>

text \<open>
  A state with the two buildings and the first upgrade of the specification's scenarios
  and an upgrade with an opaque description; a state without income; and a few
  candidates.
\<close>

definition example_state :: gamestate where
  "example_state =
     \<lparr> cookies = Fin 100, cookiesPerSecond = Fin 500,
       buildings =
         [\<lparr> b_id = ''Cursor'', b_name = ''Cursor'', b_owned = Fin 0, b_cost = Fin 15,
            b_baseCPS = Fin (1 / 10), b_totalCPS = Fin 0 \<rparr>,
          \<lparr> b_id = ''Grandma'', b_name = ''Grandma'', b_owned = Fin 5, b_cost = Fin 1000,
            b_baseCPS = Fin 1, b_totalCPS = Fin 6 \<rparr>],
       upgrades =
         [\<lparr> u_id = ''upgrade_0'', u_name = ''Forwards from grandma'', u_cost = Fin 5000,
            u_description = ''Grandmas are 2x as efficient'', u_descriptionDetail = '''' \<rparr>,
          \<lparr> u_id = ''upgrade_1'', u_name = ''Mystery'', u_cost = Fin 1000,
            u_description = ''???'', u_descriptionDetail = '''' \<rparr>] \<rparr>"

definition idle_state :: gamestate where
  "idle_state = \<lparr> cookies = Fin 0, cookiesPerSecond = Fin 0, buildings = [], upgrades = [] \<rparr>"

definition mystery_upgrade :: upgrade where
  "mystery_upgrade =
     \<lparr> u_id = ''upgrade_0'', u_name = ''Mystery'', u_cost = Fin 1000,
       u_description = ''???'', u_descriptionDetail = '''' \<rparr>"


definition cand_a :: candidate where
  "cand_a = \<lparr> c_id = ''a'', c_type = ''building'', c_name = ''A'', c_cost = Fin 5,
              deltaCPS = Fin 1, roiTime = Fin 5, currentOwned = Some (Fin 0) \<rparr>"

definition cand_b :: candidate where
  "cand_b = \<lparr> c_id = ''b'', c_type = ''upgrade'', c_name = ''B'', c_cost = Fin 10,
              deltaCPS = Fin 2, roiTime = Fin 5, currentOwned = None \<rparr>"

definition cand_slow :: candidate where
  "cand_slow = \<lparr> c_id = ''s'', c_type = ''building'', c_name = ''S'', c_cost = Fin 7202,
                 deltaCPS = Fin 1, roiTime = Fin 7202, currentOwned = Some (Fin 3) \<rparr>"

definition cand_never :: candidate where
  "cand_never = \<lparr> c_id = ''z'', c_type = ''upgrade'', c_name = ''Z'', c_cost = Fin 10,
                  deltaCPS = Fin 0, roiTime = PosInf, currentOwned = None \<rparr>"

section \<open>Facts about numbers\<close>

lemma jmul_one: "jmul x (Fin 1) = x"
  by (cases x) (simp_all add: inf_of_sign_def)

lemma jmul_pos_iff:
  assumes "jle (Fin 0) x" "jlt (Fin 0) y"
  shows "jlt (Fin 0) (jmul x y) \<longleftrightarrow> jlt (Fin 0) x"
  using assms by (cases x; cases y) (auto simp: inf_of_sign_def zero_less_mult_iff)

lemma jsub_gt_iff:
  assumes "x \<noteq> NaN" "y \<noteq> NaN"
  shows "jgt (jsub y x) (Fin 0) \<longleftrightarrow> jlt x y"
  using assms by (cases x; cases y) (auto simp: jgt_def)

lemma jle_total: "x \<noteq> NaN \<Longrightarrow> y \<noteq> NaN \<Longrightarrow> \<not> jlt x y \<Longrightarrow> jle y x"
  by (cases x; cases y) auto

lemma jlt_imp_jle: "jlt x y \<Longrightarrow> jle x y"
  by (cases x; cases y) auto

lemma jlt_irrefl: "\<not> jlt x x"
  by (cases x) auto

lemma jle_trans: "jle x y \<Longrightarrow> jle y z \<Longrightarrow> jle x z"
  by (cases x; cases y; cases z) auto

section \<open>The economic model\<close>

lemma calculateROITime_not_NaN: "calculateROITime cost delta \<noteq> NaN"
  by (cases "jdiv cost delta") (simp_all add: calculateROITime_def Let_def)

lemma calculateROITime_not_negative: "\<not> jlt (calculateROITime cost delta) (Fin 0)"
  by (cases "jdiv cost delta") (simp_all add: calculateROITime_def Let_def)

lemma building_candidate_fields:
  assumes "calculateBuildingROI b = Some c"
  shows "c_type c = ''building'' \<and> c_cost c = b_cost b \<and> \<not> jle (c_cost c) (Fin 0)
         \<and> roiTime c = calculateROITime (c_cost c) (deltaCPS c)"
  using assms by (auto simp: calculateBuildingROI_def Let_def split: if_splits)

lemma upgrade_candidate_fields:
  assumes "calculateUpgradeROI gs u = Some c"
  shows "c_type c = ''upgrade'' \<and> c_cost c = u_cost u \<and> \<not> jle (c_cost c) (Fin 0)
         \<and> roiTime c = calculateROITime (c_cost c) (deltaCPS c)"
  using assms by (auto simp: calculateUpgradeROI_def Let_def split: if_splits)

lemma getAllCandidates_cases:
  assumes "c \<in> set (getAllCandidates gs)"
  shows "(\<exists>b \<in> set (buildings gs). calculateBuildingROI b = Some c)
         \<or> (\<exists>u \<in> set (upgrades gs). calculateUpgradeROI gs u = Some c)"
  using assms by (auto simp: getAllCandidates_def List.map_filter_def)

lemma candidate_fields:
  assumes "c \<in> set (getAllCandidates gs)"
  shows "(c_type c = ''building'' \<or> c_type c = ''upgrade'') \<and> \<not> jle (c_cost c) (Fin 0)
         \<and> roiTime c = calculateROITime (c_cost c) (deltaCPS c)"
  using getAllCandidates_cases[OF assms] building_candidate_fields upgrade_candidate_fields
  by blast

text \<open>
  Claim C3. The payback time is \<open>+Infinity\<close> when the rate delta is below
  \<open>MIN_VALID_DELTA_CPS\<close>; otherwise it is \<open>cost / delta\<close>, replaced by \<open>+Infinity\<close>
  when that quotient is not finite or is negative. So it is never NaN and never negative,
  for any two numbers and in particular for every candidate of \<open>getAllCandidates\<close>.
\<close>

theorem calculateROITime_safe:
  "(jlt delta MIN_VALID_DELTA_CPS \<longrightarrow> calculateROITime cost delta = PosInf)
   \<and> (\<not> jlt delta MIN_VALID_DELTA_CPS \<longrightarrow>
        calculateROITime cost delta =
          (if \<not> isFinite (jdiv cost delta) \<or> jlt (jdiv cost delta) (Fin 0) then PosInf
           else jdiv cost delta))
   \<and> calculateROITime cost delta \<noteq> NaN
   \<and> \<not> jlt (calculateROITime cost delta) (Fin 0)
   \<and> (\<forall>c \<in> set (getAllCandidates gs). roiTime c \<noteq> NaN \<and> \<not> jlt (roiTime c) (Fin 0))"
proof -
  have "\<forall>c \<in> set (getAllCandidates gs). roiTime c \<noteq> NaN \<and> \<not> jlt (roiTime c) (Fin 0)"
    using candidate_fields calculateROITime_not_NaN calculateROITime_not_negative by metis
  moreover have "jlt delta MIN_VALID_DELTA_CPS \<longrightarrow> calculateROITime cost delta = PosInf"
    by (simp add: calculateROITime_def)
  moreover have "\<not> jlt delta MIN_VALID_DELTA_CPS \<longrightarrow>
        calculateROITime cost delta =
          (if \<not> isFinite (jdiv cost delta) \<or> jlt (jdiv cost delta) (Fin 0) then PosInf
           else jdiv cost delta)"
    by (simp add: calculateROITime_def Let_def)
  ultimately show ?thesis
    using calculateROITime_not_NaN calculateROITime_not_negative by blast
qed

theorem calculateROITime_safe_witness:
  "jlt (Fin 0) MIN_VALID_DELTA_CPS \<and> calculateROITime (Fin 15) (Fin 0) = PosInf
   \<and> \<not> jlt (Fin (1 / 10)) MIN_VALID_DELTA_CPS
   \<and> calculateROITime (Fin 15) (Fin (1 / 10)) = Fin 150
   \<and> calculateROITime PosInf PosInf = PosInf
   \<and> map roiTime (getAllCandidates example_state) = [Fin 150, Fin (2500 / 3), Fin (2500 / 3), Fin 100]"
proof -
  have e: "map roiTime (getAllCandidates example_state) = [Fin 150, Fin (2500 / 3), Fin (2500 / 3), Fin 100]"
    by code_simp
  have f: "jdiv (Fin 15) (Fin (1 / 10)) = Fin 150" "jdiv PosInf PosInf = NaN"
    by simp_all
  show ?thesis
    using calculateROITime_safe[of "Fin 0" "Fin 15" example_state]
          calculateROITime_safe[of "Fin (1 / 10)" "Fin 15" example_state]
          calculateROITime_safe[of PosInf PosInf example_state] e f
    by (simp add: MIN_VALID_DELTA_CPS_def)
qed

text \<open>
  Claim C4. A building with \<open>cost > 0\<close> and \<open>baseCPS >= 0\<close> yields a candidate whose rate
  delta is \<open>baseCPS * multiplier\<close>, where the multiplier is \<open>totalCPS / (baseCPS * owned)\<close>
  when \<open>owned\<close>, \<open>totalCPS\<close> and \<open>baseCPS\<close> are all positive and 1 otherwise; with
  \<open>owned = 0\<close> the rate delta is \<open>baseCPS\<close> itself.
\<close>

theorem calculateBuildingROI_delta:
  assumes "jgt (b_cost b) (Fin 0)" and "jge (b_baseCPS b) (Fin 0)"
  shows "\<exists>c. calculateBuildingROI b = Some c
           \<and> deltaCPS c =
               jmul (b_baseCPS b)
                 (if jgt (b_owned b) (Fin 0) \<and> jgt (b_totalCPS b) (Fin 0) \<and> jgt (b_baseCPS b) (Fin 0)
                  then jdiv (b_totalCPS b) (jmul (b_baseCPS b) (b_owned b)) else Fin 1)
           \<and> (b_owned b = Fin 0 \<longrightarrow> deltaCPS c = b_baseCPS b)"
proof -
  have g1: "\<not> jle (b_cost b) (Fin 0)"
    using assms(1) by (cases "b_cost b") (simp_all add: jgt_def)
  have g2: "\<not> jlt (b_baseCPS b) (Fin 0)"
    using assms(2) by (cases "b_baseCPS b") (simp_all add: jge_def)
  have m: "jgt (b_owned b) (Fin 0) \<Longrightarrow>
           jgt (jmul (b_baseCPS b) (b_owned b)) (Fin 0) = jgt (b_baseCPS b) (Fin 0)"
    using jmul_pos_iff[of "b_baseCPS b" "b_owned b"] assms(2) by (simp add: jgt_def jge_def)
  show ?thesis
    using g1 g2 m by (auto simp: calculateBuildingROI_def Let_def jmul_one jgt_def)
qed

theorem calculateBuildingROI_delta_witness:
  "jgt (b_cost (buildings example_state ! 1)) (Fin 0)
   \<and> jge (b_baseCPS (buildings example_state ! 1)) (Fin 0)
   \<and> map_option deltaCPS (calculateBuildingROI (buildings example_state ! 1)) = Some (Fin (6 / 5))
   \<and> b_owned (buildings example_state ! 0) = Fin 0
   \<and> map_option deltaCPS (calculateBuildingROI (buildings example_state ! 0)) = Some (Fin (1 / 10))"
proof -
  have h: "jgt (b_cost (buildings example_state ! 1)) (Fin 0)"
    "jge (b_baseCPS (buildings example_state ! 1)) (Fin 0)"
    "jgt (b_cost (buildings example_state ! 0)) (Fin 0)"
    "jge (b_baseCPS (buildings example_state ! 0)) (Fin 0)"
    by (simp_all add: example_state_def jgt_def jge_def)
  have v: "b_owned (buildings example_state ! 0) = Fin 0"
    "b_baseCPS (buildings example_state ! 0) = Fin (1 / 10)"
    "b_baseCPS (buildings example_state ! 1) = Fin 1"
    "b_owned (buildings example_state ! 1) = Fin 5"
    "b_totalCPS (buildings example_state ! 1) = Fin 6"
    by (simp_all add: example_state_def)
  show ?thesis
    using calculateBuildingROI_delta[OF h(1,2)] calculateBuildingROI_delta[OF h(3,4)] h(1,2) v
    by (auto simp: jgt_def)
qed

text \<open>
  Claim C1. The estimator tries the six patterns in the order explicit multiplier,
  percentage boost, flat bonus, bare building reference, click or cursor keyword, unknown
  fallback, and the first that applies gives the result. The explicit multiplier applies
  only when the building is found in the state: when the pattern matches and no building
  is found, the result comes from the later patterns.
\<close>

theorem estimateUpgradeCPS_priority:
  "estimateUpgradeCPS gs description =
     (let desc = toLowerCase description;
          cps = cookiesPerSecond gs;
          found = findAffectedBuilding gs desc
      in if match_MULTIPLIER desc \<noteq> None \<and> found \<noteq> None
         then jmul (b_totalCPS (the found))
                (jsub (parseFloat (the (match_MULTIPLIER desc))) (Fin 1))
         else if match_PERCENTAGE_BOOST desc \<noteq> None
         then jmul (case found of Some b \<Rightarrow> b_totalCPS b | None \<Rightarrow> cps)
                (jdiv (parseFloat (the (match_PERCENTAGE_BOOST desc))) (Fin 100))
         else if match_FLAT_COOKIE_BONUS desc \<noteq> None
         then jmul (parseFloat (the (match_FLAT_COOKIE_BONUS desc))) (Fin (3 / 2))
         else if found \<noteq> None
         then jmul (b_totalCPS (the found)) SYNERGY_MULTIPLIER
         else if str_includes desc ''click'' \<or> str_includes desc ''cursor''
         then jmul cps CLICK_UPGRADE_WEIGHT
         else jmul cps CONSERVATIVE_BOOST)
   \<and> (match_MULTIPLIER (toLowerCase description) \<noteq> None
        \<and> findAffectedBuilding gs (toLowerCase description) = None
      \<longrightarrow> estimateUpgradeCPS gs description =
            (let desc = toLowerCase description; cps = cookiesPerSecond gs
             in if match_PERCENTAGE_BOOST desc \<noteq> None
                then jmul cps (jdiv (parseFloat (the (match_PERCENTAGE_BOOST desc))) (Fin 100))
                else if match_FLAT_COOKIE_BONUS desc \<noteq> None
                then jmul (parseFloat (the (match_FLAT_COOKIE_BONUS desc))) (Fin (3 / 2))
                else if str_includes desc ''click'' \<or> str_includes desc ''cursor''
                then jmul cps CLICK_UPGRADE_WEIGHT
                else jmul cps CONSERVATIVE_BOOST))"
  by (auto simp: estimateUpgradeCPS_def estimate_after_multiplier_def Let_def
           split: option.splits)

text \<open>
  Each of the six patterns decides at some description, and a multiplier pattern without
  a building of the state falls through (here to the click keyword).
\<close>

theorem estimateUpgradeCPS_priority_witness:
  "match_MULTIPLIER (toLowerCase ''2x as efficient CLICKING'') \<noteq> None
   \<and> findAffectedBuilding idle_state (toLowerCase ''2x as efficient CLICKING'') = None
   \<and> estimateUpgradeCPS idle_state ''2x as efficient CLICKING''
       = jmul (cookiesPerSecond idle_state) CLICK_UPGRADE_WEIGHT
   \<and> estimateUpgradeCPS example_state ''Grandmas are 2x as efficient'' = Fin 6
   \<and> estimateUpgradeCPS example_state ''Grandmas gain 50%'' = Fin 3
   \<and> estimateUpgradeCPS example_state ''increases CPS by 50%'' = Fin 250
   \<and> estimateUpgradeCPS example_state ''the mouse gains +10 cookies per click'' = Fin 15
   \<and> estimateUpgradeCPS example_state ''Steel-plated rolling pins for every grandma'' = Fin 3
   \<and> estimateUpgradeCPS example_state ''Clicking is more fun'' = Fin 5
   \<and> estimateUpgradeCPS example_state ''???'' = Fin 10"
proof -
  have a: "match_MULTIPLIER (toLowerCase ''2x as efficient CLICKING'') = Some ''2''"
    by code_simp
  have b: "findAffectedBuilding idle_state (toLowerCase ''2x as efficient CLICKING'') = None"
    by code_simp
  have c: "match_PERCENTAGE_BOOST (toLowerCase ''2x as efficient CLICKING'') = None"
    by code_simp
  have d: "match_FLAT_COOKIE_BONUS (toLowerCase ''2x as efficient CLICKING'') = None"
    by code_simp
  have e: "str_includes (toLowerCase ''2x as efficient CLICKING'') ''click''"
    by code_simp
  have f: "match_MULTIPLIER (toLowerCase ''Grandmas are 2x as efficient'') = Some ''2''"
    by code_simp
  have g: "map_option b_totalCPS
             (findAffectedBuilding example_state (toLowerCase ''Grandmas are 2x as efficient''))
           = Some (Fin 6)"
    by code_simp
  have h: "parseFloat ''2'' = Fin 2"
    by code_simp
  from g obtain bb where g':
    "findAffectedBuilding example_state (toLowerCase ''Grandmas are 2x as efficient'') = Some bb"
    "b_totalCPS bb = Fin 6"
    by auto
  have rest:
    "estimateUpgradeCPS example_state ''Grandmas gain 50%'' = Fin 3"
    "estimateUpgradeCPS example_state ''increases CPS by 50%'' = Fin 250"
    "estimateUpgradeCPS example_state ''the mouse gains +10 cookies per click'' = Fin 15"
    "estimateUpgradeCPS example_state ''Steel-plated rolling pins for every grandma'' = Fin 3"
    "estimateUpgradeCPS example_state ''Clicking is more fun'' = Fin 5"
    "estimateUpgradeCPS example_state ''???'' = Fin 10"
    by code_simp+
  show ?thesis
    using estimateUpgradeCPS_priority[of idle_state "''2x as efficient CLICKING''"]
          estimateUpgradeCPS_priority[of example_state "''Grandmas are 2x as efficient''"]
          a b c d e f g' h rest
    by (simp add: Let_def)
qed

text \<open>
  Claim C2 as stated fails: in a state whose rate is 0, an upgrade with the description
  \<open>???\<close> and cost 1000 yields a candidate with rate delta 0 and payback time
  \<open>+Infinity\<close>; and with rate 500 the description \<open>increases CPS by 0%\<close> gives 0 too.
\<close>

theorem upgrade_delta_positive_counterexample:
  "map_option deltaCPS (calculateUpgradeROI idle_state mystery_upgrade) = Some (Fin 0)
   \<and> map_option roiTime (calculateUpgradeROI idle_state mystery_upgrade) = Some PosInf
   \<and> estimateUpgradeCPS example_state ''increases CPS by 0%'' = Fin 0
   \<and> \<not> jgt (Fin 0) (Fin 0)"
  by code_simp

text \<open>
  Claim C2, amended. An upgrade whose cost is not \<open><= 0\<close> and whose description matches
  none of the patterns yields a candidate with rate delta \<open>rate * 0.02\<close>, which is
  strictly positive exactly when the rate of the state is strictly positive. When the
  rate is 0 the rate delta is 0, and whenever the rate is not positive the payback time
  of the candidate is \<open>+Infinity\<close>.
\<close>

theorem unknown_fallback_delta:
  assumes "\<not> jle (u_cost u) (Fin 0)"
    and "desc = toLowerCase (if u_descriptionDetail u \<noteq> [] then u_descriptionDetail u
                             else u_description u)"
    and "match_MULTIPLIER desc = None"
    and "match_PERCENTAGE_BOOST desc = None"
    and "match_FLAT_COOKIE_BONUS desc = None"
    and "match_BUILDING_REFERENCE desc = None"
    and "\<not> str_includes desc ''click''"
    and "\<not> str_includes desc ''cursor''"
  shows "\<exists>c. calculateUpgradeROI gs u = Some c
           \<and> deltaCPS c = jmul (cookiesPerSecond gs) CONSERVATIVE_BOOST
           \<and> (jgt (deltaCPS c) (Fin 0) \<longleftrightarrow> jgt (cookiesPerSecond gs) (Fin 0))
           \<and> (cookiesPerSecond gs = Fin 0 \<longrightarrow> deltaCPS c = Fin 0)
           \<and> roiTime c = calculateROITime (u_cost u) (deltaCPS c)
           \<and> (\<not> jgt (cookiesPerSecond gs) (Fin 0) \<longrightarrow> roiTime c = PosInf)"
proof -
  have pos: "jgt (jmul x CONSERVATIVE_BOOST) (Fin 0) \<longleftrightarrow> jgt x (Fin 0)" for x
    by (cases x) (simp_all add: CONSERVATIVE_BOOST_def jgt_def inf_of_sign_def zero_less_mult_iff)
  have zero: "jmul (Fin 0) CONSERVATIVE_BOOST = Fin 0"
    by (simp add: CONSERVATIVE_BOOST_def)
  have never: "calculateROITime k (jmul x CONSERVATIVE_BOOST) = PosInf"
    if "\<not> jgt x (Fin 0)" for k x
    using that
    by (cases x; cases k)
       (simp_all add: calculateROITime_def CONSERVATIVE_BOOST_def MIN_VALID_DELTA_CPS_def
                      jgt_def inf_of_sign_def Let_def mult_le_0_iff)
  have c: "calculateUpgradeROI gs u =
             Some \<lparr> c_id = u_id u, c_type = ''upgrade'', c_name = u_name u, c_cost = u_cost u,
                    deltaCPS = jmul (cookiesPerSecond gs) CONSERVATIVE_BOOST,
                    roiTime = calculateROITime (u_cost u)
                                (jmul (cookiesPerSecond gs) CONSERVATIVE_BOOST),
                    currentOwned = None \<rparr>"
    using assms
    by (simp add: calculateUpgradeROI_def estimateUpgradeCPS_def estimate_after_multiplier_def
                  findAffectedBuilding_def Let_def)
  show ?thesis
    using pos zero never by (simp add: c)
qed

theorem unknown_fallback_delta_witness:
  "\<not> jle (u_cost mystery_upgrade) (Fin 0)
   \<and> match_MULTIPLIER (toLowerCase ''???'') = None
   \<and> match_PERCENTAGE_BOOST (toLowerCase ''???'') = None
   \<and> match_FLAT_COOKIE_BONUS (toLowerCase ''???'') = None
   \<and> match_BUILDING_REFERENCE (toLowerCase ''???'') = None
   \<and> \<not> str_includes (toLowerCase ''???'') ''click''
   \<and> \<not> str_includes (toLowerCase ''???'') ''cursor''
   \<and> map_option deltaCPS (calculateUpgradeROI example_state mystery_upgrade) = Some (Fin 10)
   \<and> jgt (cookiesPerSecond example_state) (Fin 0)
   \<and> map_option deltaCPS (calculateUpgradeROI idle_state mystery_upgrade) = Some (Fin 0)
   \<and> cookiesPerSecond idle_state = Fin 0
   \<and> \<not> jgt (cookiesPerSecond idle_state) (Fin 0)
   \<and> map_option roiTime (calculateUpgradeROI idle_state mystery_upgrade) = Some PosInf
   \<and> map_option roiTime (calculateUpgradeROI example_state mystery_upgrade) = Some (Fin 100)"
proof -
  have c: "\<not> jle (u_cost mystery_upgrade) (Fin 0)"
    by (simp add: mystery_upgrade_def)
  have d: "toLowerCase ''???'' = toLowerCase (if u_descriptionDetail mystery_upgrade \<noteq> []
             then u_descriptionDetail mystery_upgrade else u_description mystery_upgrade)"
    by (simp add: mystery_upgrade_def)
  have m: "match_MULTIPLIER (toLowerCase ''???'') = None"
    "match_PERCENTAGE_BOOST (toLowerCase ''???'') = None"
    "match_FLAT_COOKIE_BONUS (toLowerCase ''???'') = None"
    "match_BUILDING_REFERENCE (toLowerCase ''???'') = None"
    by code_simp+
  have s: "\<not> str_includes (toLowerCase ''???'') ''click''"
    "\<not> str_includes (toLowerCase ''???'') ''cursor''"
    by code_simp+
  have v: "cookiesPerSecond example_state = Fin 500" "cookiesPerSecond idle_state = Fin 0"
    by (simp_all add: example_state_def idle_state_def)
  have k: "u_cost mystery_upgrade = Fin 1000"
    by (simp add: mystery_upgrade_def)
  have r: "calculateROITime (Fin 1000) (Fin 10) = Fin 100"
    by (simp add: calculateROITime_def MIN_VALID_DELTA_CPS_def)
  show ?thesis
    using unknown_fallback_delta[OF c d m s, of example_state]
          unknown_fallback_delta[OF c d m s, of idle_state] c m s v k r
    by (auto simp: CONSERVATIVE_BOOST_def jgt_def)
qed

section \<open>The validators\<close>

lemma get_prop_truthy: "truthy v \<Longrightarrow> \<exists>w. get_prop v p = Inr w"
  by (cases v) simp_all

lemma isValidGameObject_total: "\<exists>b. isValidGameObject v = Inr b"
proof (cases "truthy v")
  case True
  obtain a b c d where "get_prop v ''cookies'' = Inr a" "get_prop v ''cookiesPs'' = Inr b"
    "get_prop v ''Objects'' = Inr c" "get_prop v ''UpgradesInStore'' = Inr d"
    using get_prop_truthy[OF True] by metis
  then show ?thesis by (auto simp: isValidGameObject_def bind_err_def)
next
  case False
  then show ?thesis by (auto simp: isValidGameObject_def)
qed

lemma isValidBuilding_total: "\<exists>b. isValidBuilding v = Inr b"
proof (cases "truthy v")
  case True
  obtain a b c d where "get_prop v ''name'' = Inr a" "get_prop v ''amount'' = Inr b"
    "get_prop v ''price'' = Inr c" "get_prop v ''cps'' = Inr d"
    using get_prop_truthy[OF True] by metis
  then show ?thesis by (auto simp: isValidBuilding_def bind_err_def)
next
  case False
  then show ?thesis by (auto simp: isValidBuilding_def)
qed

lemma isValidUpgrade_total: "\<exists>b. isValidUpgrade v = Inr b"
proof (cases "truthy v")
  case True
  obtain a b c where "get_prop v ''name'' = Inr a" "get_prop v ''getPrice'' = Inr b"
    "get_prop v ''basePrice'' = Inr c"
    using get_prop_truthy[OF True] by metis
  then show ?thesis by (auto simp: isValidUpgrade_def bind_err_def)
next
  case False
  then show ?thesis by (auto simp: isValidUpgrade_def)
qed

lemma isValidGameState_total: "\<exists>b. isValidGameState v = Inr b"
proof (cases "truthy v")
  case True
  obtain a b c d where "get_prop v ''cookies'' = Inr a" "get_prop v ''cookiesPerSecond'' = Inr b"
    "get_prop v ''buildings'' = Inr c" "get_prop v ''upgrades'' = Inr d"
    using get_prop_truthy[OF True] by metis
  then show ?thesis by (auto simp: isValidGameState_def bind_err_def)
next
  case False
  then show ?thesis by (auto simp: isValidGameState_def)
qed

text \<open>
  Claim C8. The claim is that every validator returns a boolean for every value. The
  four validators above do, and so do the four validators of numbers; but
  \<open>isValidCandidate\<close> applies the operator \<open>in\<close> to its argument, which throws a
  TypeError on every primitive that is not falsy.
\<close>

theorem isValidCandidate_throws_on_primitive:
  "isValidCandidate (Num (Fin 5)) = Inl TypeError
   \<and> isValidCandidate (Str ''abc'') = Inl TypeError
   \<and> isValidCandidate (Bool True) = Inl TypeError"
  by (simp add: isValidCandidate_def requiredProps_def bind_err_def)

text \<open>So at the number 5 the validator returns neither true nor false.\<close>

theorem isValidCandidate_throws_on_primitive_witness:
  "isValidCandidate (Num (Fin 5)) \<noteq> Inr True \<and> isValidCandidate (Num (Fin 5)) \<noteq> Inr False"
  using isValidCandidate_throws_on_primitive by simp

section \<open>Filtering and sorting\<close>

lemma set_sort_insert: "set (sort_insert cmp x xs) = insert x (set xs)"
  by (induction xs) auto

lemma mset_sort_insert: "mset (sort_insert cmp x xs) = add_mset x (mset xs)"
  by (induction xs) auto

lemma mset_array_sort: "mset (array_sort cmp xs) = mset xs"
  by (induction xs) (auto simp: mset_sort_insert)

lemma set_array_sort: "set (array_sort cmp xs) = set xs"
  using mset_array_sort[of cmp xs] by (metis set_mset_mset)

lemma sorted_wrt_sort_insert:
  assumes tr: "\<And>a b c. a \<in> S \<Longrightarrow> b \<in> S \<Longrightarrow> c \<in> S \<Longrightarrow> R a b \<Longrightarrow> R b c \<Longrightarrow> R a c"
    and gt: "\<And>a b. a \<in> S \<Longrightarrow> b \<in> S \<Longrightarrow> jgt (cmp a b) (Fin 0) \<Longrightarrow> R b a"
    and le: "\<And>a b. a \<in> S \<Longrightarrow> b \<in> S \<Longrightarrow> \<not> jgt (cmp a b) (Fin 0) \<Longrightarrow> R a b"
    and "x \<in> S" "set xs \<subseteq> S" "sorted_wrt R xs"
  shows "sorted_wrt R (sort_insert cmp x xs)"
  using assms(4-)
proof (induction xs)
  case Nil
  then show ?case by simp
next
  case (Cons y ys)
  show ?case
  proof (cases "jgt (cmp x y) (Fin 0)")
    case True
    have "R y x" using gt True Cons.prems by simp
    moreover have "sorted_wrt R (sort_insert cmp x ys)" using Cons by simp
    ultimately show ?thesis using True Cons.prems by (auto simp: set_sort_insert)
  next
    case False
    have xy: "R x y" using le False Cons.prems by simp
    have "R x z" if "z \<in> set ys" for z
      using tr[of x y z] xy that Cons.prems by auto
    then show ?thesis using False xy Cons.prems by auto
  qed
qed

lemma sorted_wrt_array_sort:
  assumes tr: "\<And>a b c. a \<in> S \<Longrightarrow> b \<in> S \<Longrightarrow> c \<in> S \<Longrightarrow> R a b \<Longrightarrow> R b c \<Longrightarrow> R a c"
    and gt: "\<And>a b. a \<in> S \<Longrightarrow> b \<in> S \<Longrightarrow> jgt (cmp a b) (Fin 0) \<Longrightarrow> R b a"
    and le: "\<And>a b. a \<in> S \<Longrightarrow> b \<in> S \<Longrightarrow> \<not> jgt (cmp a b) (Fin 0) \<Longrightarrow> R a b"
    and "set xs \<subseteq> S"
  shows "sorted_wrt R (array_sort cmp xs)"
  using assms(4)
proof (induction xs)
  case Nil
  then show ?case by simp
next
  case (Cons x xs)
  have "sorted_wrt R (sort_insert cmp x (array_sort cmp xs))"
    by (rule sorted_wrt_sort_insert[where S = S, OF tr gt le])
       (use Cons in \<open>auto simp: set_array_sort\<close>)
  then show ?case by simp
qed

lemma sort_insert_cong:
  assumes "\<And>y. y \<in> set xs \<Longrightarrow> jgt (c1 x y) (Fin 0) = jgt (c2 x y) (Fin 0)"
  shows "sort_insert c1 x xs = sort_insert c2 x xs"
  using assms by (induction xs) auto

lemma filter_sort_insert:
  assumes "\<And>y. y \<in> set xs \<Longrightarrow> jgt (cmp x y) (Fin 0) \<Longrightarrow> P x \<Longrightarrow> \<not> P y"
  shows "filter P (sort_insert cmp x xs) = (if P x then x # filter P xs else filter P xs)"
  using assms by (induction xs) auto

lemma filter_err_total:
  assumes "\<And>x. x \<in> set xs \<Longrightarrow> p x = Inr (q x)"
  shows "filter_err p xs = Inr (filter q xs)"
  using assms by (induction xs) (auto simp: bind_err_def)

lemma isValidCandidate_candidate_obj:
  "isValidCandidate (candidate_obj c) =
     Inr ((c_type c = ''building'' \<or> c_type c = ''upgrade'') \<and> \<not> jle (c_cost c) (Fin 0))"
  by (cases "currentOwned c")
     (auto simp: isValidCandidate_def candidate_obj_def requiredProps_def bind_err_def)

lemma isValidROI_Num: "isValidROI (Num r) \<longleftrightarrow> (\<exists>t. r = Fin t \<and> 0 < t)"
  by (cases r) (auto simp: isValidROI_def)

lemma GreedyStrategy_evaluate_eq:
  "GreedyStrategy_evaluate cs =
     Inr (array_sort greedy_compare
            (filter (\<lambda>c. (c_type c = ''building'' \<or> c_type c = ''upgrade'') \<and> \<not> jle (c_cost c) (Fin 0))
              (filter (\<lambda>c. jle (roiTime c) MAX_REASONABLE_ROI)
                (filter (\<lambda>c. isValidROI (Num (roiTime c))) cs))))"
  unfolding GreedyStrategy_evaluate_def Let_def
  by (subst filter_err_total[OF isValidCandidate_candidate_obj]) (simp add: bind_err_def)

lemma RelaxedStrategy_evaluate_eq:
  "RelaxedStrategy_evaluate cs =
     Inr (array_sort relaxed_compare
            (filter (\<lambda>c. (c_type c = ''building'' \<or> c_type c = ''upgrade'') \<and> \<not> jle (c_cost c) (Fin 0))
              (filter (\<lambda>c. isValidROI (Num (roiTime c))) cs)))"
  unfolding RelaxedStrategy_evaluate_def Let_def
  by (subst filter_err_total[OF isValidCandidate_candidate_obj]) (simp add: bind_err_def)

lemma greedy_without_ceiling_eq:
  "greedy_without_ceiling cs =
     Inr (array_sort greedy_compare
            (filter (\<lambda>c. (c_type c = ''building'' \<or> c_type c = ''upgrade'') \<and> \<not> jle (c_cost c) (Fin 0))
              (filter (\<lambda>c. isValidROI (Num (roiTime c))) cs)))"
  unfolding greedy_without_ceiling_def Let_def
  by (subst filter_err_total[OF isValidCandidate_candidate_obj]) (simp add: bind_err_def)

lemma greedy_compare_gt:
  assumes "roiTime a = Fin s" "roiTime b = Fin t"
  shows "jgt (greedy_compare a b) (Fin 0) \<longleftrightarrow>
           t < s \<or> (s = t \<and> jgt (jsub (deltaCPS b) (deltaCPS a)) (Fin 0))"
  using assms by (auto simp: greedy_compare_def strict_neq_def jgt_def)

lemma relaxed_compare_gt:
  assumes "roiTime a = Fin s" "roiTime b = Fin t"
  shows "jgt (relaxed_compare a b) (Fin 0) \<longleftrightarrow> t < s"
  using assms by (auto simp: relaxed_compare_def jgt_def)





section \<open>The ranking policies\<close>

lemma greedy_survivor:
  assumes "GreedyStrategy_evaluate cs = Inr rs" "c \<in> set rs"
  shows "\<exists>t. roiTime c = Fin t \<and> 0 < t \<and> t \<le> 3600"
proof -
  have "isValidROI (Num (roiTime c))" "jle (roiTime c) MAX_REASONABLE_ROI"
    using assms by (auto simp: GreedyStrategy_evaluate_eq set_array_sort)
  then show ?thesis
    by (auto simp: isValidROI_Num MAX_REASONABLE_ROI_def)
qed

lemma greedy_order_general:
  "\<exists>rs. GreedyStrategy_evaluate cs = Inr rs
      \<and> ((\<forall>c \<in> set rs. deltaCPS c \<noteq> NaN) \<longrightarrow>
           sorted_wrt (\<lambda>a b. jle (roiTime a) (roiTime b)) rs
           \<and> sorted_wrt (\<lambda>a b. roiTime a = roiTime b \<longrightarrow> jge (deltaCPS a) (deltaCPS b)) rs)"
proof -
  define xs where
    "xs = filter (\<lambda>c. (c_type c = ''building'' \<or> c_type c = ''upgrade'') \<and> \<not> jle (c_cost c) (Fin 0))
            (filter (\<lambda>c. jle (roiTime c) MAX_REASONABLE_ROI)
              (filter (\<lambda>c. isValidROI (Num (roiTime c))) cs))"
  have rs: "GreedyStrategy_evaluate cs = Inr (array_sort greedy_compare xs)"
    by (simp add: GreedyStrategy_evaluate_eq xs_def)
  have xs: "\<exists>t. roiTime c = Fin t" if "c \<in> set xs" for c
    using that by (auto simp: xs_def isValidROI_Num)
  let ?rs = "array_sort greedy_compare xs"
  have one: "sorted_wrt (\<lambda>a b. jle (roiTime a) (roiTime b)) ?rs"
  proof (rule sorted_wrt_array_sort[where S = "set xs"])
    fix a b c assume "jle (roiTime a) (roiTime b)" "jle (roiTime b) (roiTime c)"
    then show "jle (roiTime a) (roiTime c)" by (rule jle_trans)
  next
    fix a b assume "a \<in> set xs" "b \<in> set xs" "jgt (greedy_compare a b) (Fin 0)"
    then show "jle (roiTime b) (roiTime a)"
      using xs[of a] xs[of b] by (auto simp: greedy_compare_gt)
  next
    fix a b assume "a \<in> set xs" "b \<in> set xs" "\<not> jgt (greedy_compare a b) (Fin 0)"
    then show "jle (roiTime a) (roiTime b)"
      using xs[of a] xs[of b] by (auto simp: greedy_compare_gt)
  qed simp
  have two: "sorted_wrt (\<lambda>a b. roiTime a = roiTime b \<longrightarrow> jge (deltaCPS a) (deltaCPS b)) ?rs"
    if nn: "\<forall>c \<in> set ?rs. deltaCPS c \<noteq> NaN"
  proof -
    let ?R = "\<lambda>a b. jlt (roiTime a) (roiTime b)
                    \<or> (roiTime a = roiTime b \<and> jle (deltaCPS b) (deltaCPS a))"
    have nn': "\<And>c. c \<in> set xs \<Longrightarrow> deltaCPS c \<noteq> NaN"
      using nn by (simp add: set_array_sort)
    have "sorted_wrt ?R ?rs"
    proof (rule sorted_wrt_array_sort[where S = "set xs"])
      fix a b c
      assume in_xs: "a \<in> set xs" "b \<in> set xs" "c \<in> set xs" and ab: "?R a b" and bc: "?R b c"
      obtain s where s: "roiTime a = Fin s" using xs[OF in_xs(1)] by blast
      obtain t where t: "roiTime b = Fin t" using xs[OF in_xs(2)] by blast
      obtain u where u: "roiTime c = Fin u" using xs[OF in_xs(3)] by blast
      from ab bc s t u consider
          "s < u"
        | "s = t" "t = u" "jle (deltaCPS b) (deltaCPS a)" "jle (deltaCPS c) (deltaCPS b)"
        by fastforce
      then show "?R a c"
      proof cases
        case 1
        then show ?thesis using s u by simp
      next
        case 2
        then show ?thesis
          using s t u jle_trans[of "deltaCPS c" "deltaCPS b" "deltaCPS a"] by simp
      qed
    next
      fix a b assume ab: "a \<in> set xs" "b \<in> set xs" and g: "jgt (greedy_compare a b) (Fin 0)"
      obtain s where s: "roiTime a = Fin s" using xs[OF ab(1)] by blast
      obtain t where t: "roiTime b = Fin t" using xs[OF ab(2)] by blast
      have n: "deltaCPS a \<noteq> NaN" "deltaCPS b \<noteq> NaN" using nn' ab by simp_all
      have "t < s \<or> (s = t \<and> jlt (deltaCPS a) (deltaCPS b))"
        using g by (simp add: greedy_compare_gt[OF s t] jsub_gt_iff[OF n])
      then show "?R b a"
        using s t jlt_imp_jle[of "deltaCPS a" "deltaCPS b"] by auto
    next
      fix a b assume ab: "a \<in> set xs" "b \<in> set xs" and g: "\<not> jgt (greedy_compare a b) (Fin 0)"
      obtain s where s: "roiTime a = Fin s" using xs[OF ab(1)] by blast
      obtain t where t: "roiTime b = Fin t" using xs[OF ab(2)] by blast
      have n: "deltaCPS a \<noteq> NaN" "deltaCPS b \<noteq> NaN" using nn' ab by simp_all
      have "\<not> t < s \<and> (s = t \<longrightarrow> \<not> jlt (deltaCPS a) (deltaCPS b))"
        using g by (simp add: greedy_compare_gt[OF s t] jsub_gt_iff[OF n])
      then show "?R a b"
        using s t jle_total[OF n] by auto
    qed simp
    then show ?thesis
      by (rule sorted_wrt_mono_rel[rotated]) (auto simp: jge_def jlt_irrefl)
  qed
  show ?thesis using rs one two by blast
qed


lemma finite_payback_delta:
  assumes "calculateROITime cost delta = Fin t"
  shows "delta \<noteq> NaN"
  using assms by (cases cost) (auto simp: calculateROITime_def Let_def split: if_splits)

text \<open>
  Claim C5. A candidate is a record whose payback time is the one the payback rule
  gives for its cost and rate delta, as every candidate built by the economic model is.
  For every sequence of candidates, the result of the Greedy policy is in ascending
  order of payback time, and candidates with equal payback time are in descending order
  of rate delta. The same holds for the output of \<open>getAllCandidates\<close> of any state.
\<close>

theorem greedy_ranked_order:
  "((\<forall>c \<in> set cs. roiTime c = calculateROITime (c_cost c) (deltaCPS c)) \<longrightarrow>
      (\<exists>rs. GreedyStrategy_evaluate cs = Inr rs
         \<and> sorted_wrt (\<lambda>a b. jle (roiTime a) (roiTime b)) rs
         \<and> sorted_wrt (\<lambda>a b. roiTime a = roiTime b \<longrightarrow> jge (deltaCPS a) (deltaCPS b)) rs))
   \<and> (\<exists>rs. GreedyStrategy_evaluate (getAllCandidates gs) = Inr rs
         \<and> sorted_wrt (\<lambda>a b. jle (roiTime a) (roiTime b)) rs
         \<and> sorted_wrt (\<lambda>a b. roiTime a = roiTime b \<longrightarrow> jge (deltaCPS a) (deltaCPS b)) rs)"
proof -
  have gen: "\<exists>rs. GreedyStrategy_evaluate xs = Inr rs
         \<and> sorted_wrt (\<lambda>a b. jle (roiTime a) (roiTime b)) rs
         \<and> sorted_wrt (\<lambda>a b. roiTime a = roiTime b \<longrightarrow> jge (deltaCPS a) (deltaCPS b)) rs"
    if wf: "\<forall>c \<in> set xs. roiTime c = calculateROITime (c_cost c) (deltaCPS c)" for xs
  proof -
    obtain rs where rs: "GreedyStrategy_evaluate xs = Inr rs"
      and both: "(\<forall>c \<in> set rs. deltaCPS c \<noteq> NaN) \<longrightarrow>
           sorted_wrt (\<lambda>a b. jle (roiTime a) (roiTime b)) rs
           \<and> sorted_wrt (\<lambda>a b. roiTime a = roiTime b \<longrightarrow> jge (deltaCPS a) (deltaCPS b)) rs"
      using greedy_order_general[of xs] by blast
    have "deltaCPS c \<noteq> NaN" if c: "c \<in> set rs" for c
    proof -
      obtain t where t: "roiTime c = Fin t" using greedy_survivor[OF rs c] by blast
      have "c \<in> set xs"
        using rs c by (auto simp: GreedyStrategy_evaluate_eq set_array_sort)
      then have "roiTime c = calculateROITime (c_cost c) (deltaCPS c)"
        using wf by blast
      then show ?thesis using t finite_payback_delta by metis
    qed
    then show ?thesis using rs both by blast
  qed
  have "\<forall>c \<in> set (getAllCandidates gs). roiTime c = calculateROITime (c_cost c) (deltaCPS c)"
    using candidate_fields by blast
  then show ?thesis using gen by blast
qed

theorem greedy_ranked_order_witness:
  "roiTime cand_a = calculateROITime (c_cost cand_a) (deltaCPS cand_a)
   \<and> roiTime cand_slow = calculateROITime (c_cost cand_slow) (deltaCPS cand_slow)
   \<and> roiTime cand_b = calculateROITime (c_cost cand_b) (deltaCPS cand_b)
   \<and> GreedyStrategy_evaluate [cand_a, cand_slow, cand_b] = Inr [cand_b, cand_a]
   \<and> roiTime cand_b = roiTime cand_a
   \<and> jle (roiTime cand_b) (roiTime cand_a)
   \<and> jge (deltaCPS cand_b) (deltaCPS cand_a)"
proof -
  have e: "GreedyStrategy_evaluate [cand_a, cand_slow, cand_b] = Inr [cand_b, cand_a]"
    by code_simp
  have w: "roiTime cand_a = calculateROITime (c_cost cand_a) (deltaCPS cand_a)"
    "roiTime cand_slow = calculateROITime (c_cost cand_slow) (deltaCPS cand_slow)"
    "roiTime cand_b = calculateROITime (c_cost cand_b) (deltaCPS cand_b)"
    by (simp_all add: cand_a_def cand_b_def cand_slow_def calculateROITime_def
                      MIN_VALID_DELTA_CPS_def)
  have d: "roiTime cand_b = roiTime cand_a"
    by (simp add: cand_a_def cand_b_def)
  show ?thesis
    using greedy_ranked_order[of "[cand_a, cand_slow, cand_b]" example_state] e w d by simp
qed

text \<open>
  Claim C6. Every candidate in the result of the Greedy policy has a finite payback
  time that is not \<open><= 0\<close> and does not exceed \<open>MAX_REASONABLE_ROI\<close>, which is 3600.
\<close>

theorem greedy_filter_sound:
  "\<exists>rs. GreedyStrategy_evaluate cs = Inr rs
      \<and> (\<forall>c \<in> set rs. isFinite (roiTime c) \<and> \<not> jle (roiTime c) (Fin 0)
                         \<and> \<not> jgt (roiTime c) MAX_REASONABLE_ROI)
      \<and> MAX_REASONABLE_ROI = Fin 3600"
proof -
  obtain rs where rs: "GreedyStrategy_evaluate cs = Inr rs"
    by (simp add: GreedyStrategy_evaluate_eq)
  have "isFinite (roiTime c) \<and> \<not> jle (roiTime c) (Fin 0) \<and> \<not> jgt (roiTime c) MAX_REASONABLE_ROI"
    if "c \<in> set rs" for c
    using greedy_survivor[OF rs that] by (auto simp: jgt_def MAX_REASONABLE_ROI_def)
  then show ?thesis using rs by (simp add: MAX_REASONABLE_ROI_def)
qed

theorem greedy_filter_sound_witness:
  "GreedyStrategy_evaluate [cand_slow, cand_never, cand_a] = Inr [cand_a]
   \<and> isFinite (roiTime cand_a) \<and> \<not> jle (roiTime cand_a) (Fin 0)
   \<and> \<not> jgt (roiTime cand_a) MAX_REASONABLE_ROI"
proof -
  have e: "GreedyStrategy_evaluate [cand_slow, cand_never, cand_a] = Inr [cand_a]"
    by code_simp
  show ?thesis
    using greedy_filter_sound[of "[cand_slow, cand_never, cand_a]"] e by simp
qed

lemma array_sort_cong:
  assumes "distinct (map roiTime xs)" "\<And>c. c \<in> set xs \<Longrightarrow> \<exists>t. roiTime c = Fin t"
  shows "array_sort relaxed_compare xs = array_sort greedy_compare xs"
  using assms
proof (induction xs)
  case Nil
  then show ?case by simp
next
  case (Cons x xs)
  obtain s where s: "roiTime x = Fin s" using Cons.prems(2)[of x] by auto
  have "jgt (relaxed_compare x y) (Fin 0) = jgt (greedy_compare x y) (Fin 0)"
    if "y \<in> set (array_sort greedy_compare xs)" for y
  proof -
    have y: "y \<in> set xs" using that by (simp add: set_array_sort)
    then obtain t where t: "roiTime y = Fin t" using Cons.prems(2)[of y] by auto
    have "s \<noteq> t" using Cons.prems(1) y s t by force
    then show ?thesis by (simp add: relaxed_compare_gt[OF s t] greedy_compare_gt[OF s t])
  qed
  then have "sort_insert relaxed_compare x (array_sort greedy_compare xs)
             = sort_insert greedy_compare x (array_sort greedy_compare xs)"
    by (rule sort_insert_cong)
  then show ?case using Cons by simp
qed

lemma stable_array_sort_relaxed:
  assumes "\<And>c. c \<in> set xs \<Longrightarrow> \<exists>t. roiTime c = Fin t"
  shows "filter (\<lambda>c. roiTime c = r) (array_sort relaxed_compare xs)
         = filter (\<lambda>c. roiTime c = r) xs"
  using assms
proof (induction xs)
  case Nil
  then show ?case by simp
next
  case (Cons x xs)
  obtain s where s: "roiTime x = Fin s" using Cons.prems[of x] by auto
  have "filter (\<lambda>c. roiTime c = r) (sort_insert relaxed_compare x (array_sort relaxed_compare xs))
        = (if roiTime x = r then x # filter (\<lambda>c. roiTime c = r) (array_sort relaxed_compare xs)
           else filter (\<lambda>c. roiTime c = r) (array_sort relaxed_compare xs))"
  proof (rule filter_sort_insert)
    fix y
    assume y: "y \<in> set (array_sort relaxed_compare xs)"
      and g: "jgt (relaxed_compare x y) (Fin 0)" and xr: "roiTime x = r"
    from y have "y \<in> set xs" by (simp add: set_array_sort)
    then obtain t where t: "roiTime y = Fin t" using Cons.prems[of y] by auto
    show "roiTime y \<noteq> r" using g xr s t by (auto simp: relaxed_compare_gt[OF s t])
  qed
  then show ?case using Cons by simp
qed

text \<open>
  Claim C7 as stated fails: on two candidates with the same payback time, given in
  ascending order of rate delta, the Relaxed policy keeps the order of the input while
  Greedy without its ceiling filter puts the larger rate delta first.
\<close>

theorem relaxed_vs_greedy_counterexample:
  "RelaxedStrategy_evaluate [cand_a, cand_b] = Inr [cand_a, cand_b]
   \<and> greedy_without_ceiling [cand_a, cand_b] = Inr [cand_b, cand_a]
   \<and> [cand_a, cand_b] \<noteq> [cand_b, cand_a]"
  by code_simp

text \<open>
  Claim C7, amended. The Relaxed policy returns the same candidates as Greedy without
  its ceiling filter, in ascending order of payback time, and the same list when no two
  of them have the same payback time; candidates with the same payback time stay in the
  order of the input, filtered by the payback and structural filters.
\<close>

theorem relaxed_is_greedy_without_ceiling_up_to_ties:
  "\<exists>rs gs. RelaxedStrategy_evaluate cs = Inr rs \<and> greedy_without_ceiling cs = Inr gs
      \<and> mset rs = mset gs
      \<and> sorted_wrt (\<lambda>a b. jle (roiTime a) (roiTime b)) rs
      \<and> (distinct (map roiTime rs) \<longrightarrow> rs = gs)
      \<and> (\<forall>r. filter (\<lambda>c. roiTime c = r) rs
              = filter (\<lambda>c. roiTime c = r)
                  (filter (\<lambda>c. isValidROI (Num (roiTime c)) \<and> isValidCandidate (candidate_obj c) = Inr True) cs))"
proof -
  define xs where
    "xs = filter (\<lambda>c. (c_type c = ''building'' \<or> c_type c = ''upgrade'') \<and> \<not> jle (c_cost c) (Fin 0))
            (filter (\<lambda>c. isValidROI (Num (roiTime c))) cs)"
  have r: "RelaxedStrategy_evaluate cs = Inr (array_sort relaxed_compare xs)"
    by (simp add: RelaxedStrategy_evaluate_eq xs_def)
  have g: "greedy_without_ceiling cs = Inr (array_sort greedy_compare xs)"
    by (simp add: greedy_without_ceiling_eq xs_def)
  have xs: "\<exists>t. roiTime c = Fin t" if "c \<in> set xs" for c
    using that by (auto simp: xs_def isValidROI_Num)
  have xs': "xs = filter (\<lambda>c. isValidROI (Num (roiTime c)) \<and> isValidCandidate (candidate_obj c) = Inr True) cs"
    by (simp add: xs_def isValidCandidate_candidate_obj conj_commute)
  have m: "mset (array_sort relaxed_compare xs) = mset (array_sort greedy_compare xs)"
    by (simp add: mset_array_sort)
  have srt: "sorted_wrt (\<lambda>a b. jle (roiTime a) (roiTime b)) (array_sort relaxed_compare xs)"
  proof (rule sorted_wrt_array_sort[where S = "set xs"])
    fix a b c assume "jle (roiTime a) (roiTime b)" "jle (roiTime b) (roiTime c)"
    then show "jle (roiTime a) (roiTime c)" by (rule jle_trans)
  next
    fix a b assume "a \<in> set xs" "b \<in> set xs" "jgt (relaxed_compare a b) (Fin 0)"
    then show "jle (roiTime b) (roiTime a)"
      using xs[of a] xs[of b] by (auto simp: relaxed_compare_gt)
  next
    fix a b assume "a \<in> set xs" "b \<in> set xs" "\<not> jgt (relaxed_compare a b) (Fin 0)"
    then show "jle (roiTime a) (roiTime b)"
      using xs[of a] xs[of b] by (auto simp: relaxed_compare_gt)
  qed simp
  have eq: "array_sort relaxed_compare xs = array_sort greedy_compare xs"
    if d: "distinct (map roiTime (array_sort relaxed_compare xs))"
  proof -
    have "mset (map roiTime (array_sort relaxed_compare xs)) = mset (map roiTime xs)"
      by (simp add: mset_array_sort)
    then have "distinct (map roiTime xs)"
      using d by (metis mset_eq_imp_distinct_iff)
    then show ?thesis using xs by (rule array_sort_cong)
  qed
  have st: "filter (\<lambda>c. roiTime c = r) (array_sort relaxed_compare xs)
            = filter (\<lambda>c. roiTime c = r) xs" for r
    using xs by (rule stable_array_sort_relaxed)
  show ?thesis
    using r g m srt eq st unfolding xs'[symmetric] by blast
qed

theorem relaxed_is_greedy_without_ceiling_up_to_ties_witness:
  "RelaxedStrategy_evaluate [cand_slow, cand_never, cand_a] = Inr [cand_a, cand_slow]
   \<and> greedy_without_ceiling [cand_slow, cand_never, cand_a] = Inr [cand_a, cand_slow]
   \<and> distinct (map roiTime [cand_a, cand_slow])"
proof -
  have e: "RelaxedStrategy_evaluate [cand_slow, cand_never, cand_a] = Inr [cand_a, cand_slow]"
    by code_simp
  have d: "distinct (map roiTime [cand_a, cand_slow])"
    by (simp add: cand_a_def cand_slow_def)
  show ?thesis
    using relaxed_is_greedy_without_ceiling_up_to_ties[of "[cand_slow, cand_never, cand_a]"] e d
    by auto
qed

lemma GreedyStrategy_evaluate_total: "\<exists>rs. GreedyStrategy_evaluate cs = Inr rs"
  by (simp add: GreedyStrategy_evaluate_eq)

text \<open>
  Claim C9. When the active strategy is not an instance of \<open>GreedyStrategy\<close> and its
  \<open>evaluate\<close> throws or returns something that is not an array, \<open>recommend\<close> returns what
  \<open>GreedyStrategy.evaluate\<close> returns on the same candidates, which is an array. An error
  leaves \<open>recommend\<close> only when the active strategy is an instance of \<open>GreedyStrategy\<close>
  and has failed.
\<close>

theorem recommend_fallback:
  "(\<not> instanceofGreedy (eng_strategy eng)
      \<and> ((\<exists>e. evaluate (eng_strategy eng) cs = Inl e)
           \<or> evaluate (eng_strategy eng) cs = Inr NonArrayResult)
    \<longrightarrow> fst (recommend eng cs) = GreedyStrategy_evaluate cs
        \<and> (\<exists>rs. fst (recommend eng cs) = Inr rs))
   \<and> (\<forall>e. fst (recommend eng cs) = Inl e \<longrightarrow>
          instanceofGreedy (eng_strategy eng)
          \<and> (evaluate (eng_strategy eng) cs = Inl e
              \<or> evaluate (eng_strategy eng) cs = Inr NonArrayResult))"
proof -
  obtain rs where rs: "GreedyStrategy_evaluate cs = Inr rs"
    using GreedyStrategy_evaluate_total by blast
  show ?thesis
    by (cases "evaluate (eng_strategy eng) cs")
       (auto simp: recommend_def bind_err_def Let_def rs split: eval_result.splits)
qed

theorem recommend_fallback_witness:
  "\<not> instanceofGreedy (eng_strategy \<lparr> eng_strategy = BaseStrategy \<rparr>)
   \<and> evaluate BaseStrategy [cand_a, cand_b]
       = Inl (Error ''Strategy.evaluate() must be implemented by subclass'')
   \<and> fst (recommend \<lparr> eng_strategy = BaseStrategy \<rparr> [cand_a, cand_b]) = Inr [cand_b, cand_a]"
proof -
  have e: "GreedyStrategy_evaluate [cand_a, cand_b] = Inr [cand_b, cand_a]"
    by code_simp
  show ?thesis
    using recommend_fallback[of "\<lparr> eng_strategy = BaseStrategy \<rparr>" "[cand_a, cand_b]"] e
    by (simp add: BaseStrategy_def)
qed

end
